theory Spec2Isabelle
  imports Main "HOL-Library.Sublist"
begin

section \<open>tsh proxy: the local TLS-routing proxy commands (tool/tsh/proxy.go)\<close>

text \<open>
  Go strings are byte sequences: \<open>string\<close> here. Every function of the file that fails
  returns an \<open>err\<close>; every call that reaches outside the process (a listener, a file,
  a child process, the local proxy library) is recorded, in order, in a list of events.
\<close>

subsection \<open>The strings package\<close>

text \<open>
  \<^verbatim>\<open>func HasSuffix(s, suffix string) bool {
      return len(s) >= len(suffix) && s[len(s)-len(suffix):] == suffix }\<close>
\<close>

definition strings_HasSuffix :: "string \<Rightarrow> string \<Rightarrow> bool" where
  "strings_HasSuffix s suf \<longleftrightarrow>
     length s \<ge> length suf \<and> drop (length s - length suf) s = suf"

text \<open>
  \<^verbatim>\<open>func TrimSuffix(s, suffix string) string {
      if HasSuffix(s, suffix) { return s[:len(s)-len(suffix)] }
      return s }\<close>
\<close>

definition strings_TrimSuffix :: "string \<Rightarrow> string \<Rightarrow> string" where
  "strings_TrimSuffix s suf =
     (if strings_HasSuffix s suf then take (length s - length suf) s else s)"

subsection \<open>cleanTargetHost\<close>

definition cleanTargetHost :: "string \<Rightarrow> string \<Rightarrow> string \<Rightarrow> string" where
  "cleanTargetHost targetHost proxyHost siteName =
     (let targetHost1 = strings_TrimSuffix targetHost (''.'' @ proxyHost);
          targetHost2 = strings_TrimSuffix targetHost1 (''.'' @ siteName)
      in targetHost2)"

subsection \<open>strconv.Itoa and the time package\<close>

fun dec_digits :: "nat \<Rightarrow> string" where
  "dec_digits n =
     (if n < 10 then [char_of (48 + n)]
      else dec_digits (n div 10) @ [char_of (48 + n mod 10)])"

declare dec_digits.simps [simp del]

definition strconv_Itoa :: "int \<Rightarrow> string" where
  "strconv_Itoa i = (if i < 0 then CHR ''-'' # dec_digits (nat (- i)) else dec_digits (nat i))"

text \<open>
  A \<open>time.Time\<close> is an instant, counted here in nanoseconds; a \<open>time.Duration\<close> is an
  int64 count of nanoseconds. \<open>t.Sub(u)\<close> saturates: "if the result exceeds the maximum
  (or minimum) value that can be stored in a Duration, the maximum (or minimum) duration
  will be returned".
\<close>

type_synonym Time = int
type_synonym Duration = int

definition minDuration :: Duration where
  "minDuration = - (2 ^ 63)"

definition maxDuration :: Duration where
  "maxDuration = 2 ^ 63 - 1"

definition time_Second :: Duration where
  "time_Second = 1000000000"

definition time_Sub :: "Time \<Rightarrow> Time \<Rightarrow> Duration" where
  "time_Sub t u =
     (let d = t - u
      in if d < minDuration then minDuration else if maxDuration < d then maxDuration else d)"

subsection \<open>Errors\<close>

text \<open>
  The classifications of the trace package that the file builds itself
  (\<open>trace.BadParameter\<close>, \<open>trace.NotFound\<close>, \<open>trace.NewAggregate\<close>), and the errors
  that come back from collaborators, which the file only passes on.
\<close>

datatype err =
    BadParameter string
  | NotFound string
  | Aggregate "err list"
  | ExternalError string

text \<open>
  \<open>trace.Wrap\<close> attaches the call site to an error and keeps its classification and
  message; an error and its wrapped form are the same value here.
\<close>

definition trace_Wrap :: "err \<Rightarrow> err" where
  "trace_Wrap e = e"

definition trace_NewAggregate :: "err \<Rightarrow> err \<Rightarrow> err" where
  "trace_NewAggregate e1 e2 = Aggregate [e1, e2]"

subsection \<open>Data\<close>

type_synonym Context = nat

datatype net_Listener = NetListener (Addr_String: string)

datatype ALPNProtocol = ProtocolProxySSH | ProtocolHTTP | ProtocolDatabase string

datatype tls_Certificate = TlsCertificate (Certificate: "string list") (PrivateKey: string)

datatype x509_Certificate = X509Certificate (NotAfter: Time)

datatype CertPool = CertPool nat

datatype ProfileStatus = ProfileStatus nat

datatype os_File = os_Stdin | os_Stdout | os_Stderr

record tls_Config =
  RootCAs :: "CertPool option"

record Key =
  AppTLSCerts :: "string \<rightharpoonup> string"
  Priv :: string

record CLIConf =
  cf_Context :: Context
  cf_InsecureSkipVerify :: bool
  cf_SiteName :: string
  cf_LocalProxyPort :: string
  cf_LocalProxyCertFile :: string
  cf_LocalProxyKeyFile :: string
  cf_AppName :: string
  cf_HomePath :: string
  cf_Proxy :: string

record TeleportClient =
  tc_Host :: string
  tc_WebProxyAddr :: string
  tc_SiteName :: string
  tc_HostLogin :: string
  tc_TLSRoutingEnabled :: bool
  tc_KeysDir :: string
  tc_HostKeyCallback :: nat

record RouteToDatabase =
  db_ServiceName :: string
  db_Protocol :: string

text \<open>\<open>alpnproxy.LocalProxyConfig\<close>, with the fields this file sets.\<close>

record LocalProxyConfig =
  RemoteProxyAddr :: string
  Protocol :: "ALPNProtocol option"
  InsecureSkipVerify :: bool
  Listener :: "net_Listener option"
  ParentContext :: "Context option"
  SNI :: string
  Certs :: "tls_Certificate list"
  SSHUser :: string
  SSHUserHost :: string
  SSHHostKeyCallback :: "nat option"
  SSHTrustedCluster :: string
  ClientTLSConfig :: "tls_Config option"

text \<open>The zero value of the struct: what a composite literal leaves in the fields it omits.\<close>

definition LocalProxyConfig_zero :: LocalProxyConfig where
  "LocalProxyConfig_zero =
     \<lparr>RemoteProxyAddr = [], Protocol = None, InsecureSkipVerify = False, Listener = None,
      ParentContext = None, SNI = [], Certs = [], SSHUser = [], SSHUserHost = [],
      SSHHostKeyCallback = None, SSHTrustedCluster = [], ClientTLSConfig = None\<rparr>"

datatype LocalProxy = LocalProxy (lp_cfg: LocalProxyConfig)

record localProxyOpts =
  opts_proxyAddr :: string
  opts_listener :: net_Listener
  opts_protocol :: string
  opts_insecure :: bool
  opts_certFile :: string
  opts_keyFile :: string

text \<open>\<open>exec.Cmd\<close>: \<open>exec.Command(name, arg...)\<close> sets \<open>Path\<close> and \<open>Args = name, arg...\<close>.\<close>

record Cmd =
  cmd_Path :: string
  cmd_Args :: "string list"
  Stdin :: "os_File option"
  Stdout :: "os_File option"
  Stderr :: "os_File option"

definition exec_Command :: "string \<Rightarrow> string list \<Rightarrow> Cmd" where
  "exec_Command name arg =
     \<lparr>cmd_Path = name, cmd_Args = name # arg, Stdin = None, Stdout = None, Stderr = None\<rparr>"

subsection \<open>Effects\<close>

text \<open>
  The calls that leave the process, in the order they are made. \<open>EvGoCloseOnDone lp\<close> is
  the start of the goroutine \<^verbatim>\<open>go func() { <-cf.Context.Done(); lp.Close() }()\<close>.
\<close>

datatype event =
    EvNetListen string string
  | EvListenerClose net_Listener
  | EvLoadX509KeyPair string string
  | EvNewLocalProxy LocalProxyConfig
  | EvGoCloseOnDone LocalProxy
  | EvLpStart LocalProxy
  | EvLpSSHProxy LocalProxy
  | EvLpClose LocalProxy
  | EvStdout string
  | EvLog string
  | EvExec Cmd

text \<open>
  The collaborators of the file, which are not part of it: what each of their calls
  answers. A run of a command is a function of these answers.
\<close>

record ext =
  makeClient :: "CLIConf \<Rightarrow> bool \<Rightarrow> err + TeleportClient"
  pickActiveDatabase :: "CLIConf \<Rightarrow> err + RouteToDatabase"
  RootClusterName :: "TeleportClient \<Rightarrow> err + string"
  WebProxyHost :: "TeleportClient \<Rightarrow> string"
  SSHProxyHostPort :: "TeleportClient \<Rightarrow> string \<times> int"
  ClientCertPool :: "TeleportClient \<Rightarrow> string \<Rightarrow> err + CertPool"
  GetKey :: "TeleportClient \<Rightarrow> string \<Rightarrow> err + Key"
  net_SplitHostPort :: "string \<Rightarrow> err + string \<times> string"
  net_Listen :: "string \<Rightarrow> string \<Rightarrow> err + net_Listener"
  listener_Close :: "net_Listener \<Rightarrow> err option"
  utils_ParseAddr_Host :: "string \<Rightarrow> err + string"
  ToALPNProtocol :: "string \<Rightarrow> err + ALPNProtocol"
  alpnproxy_NewLocalProxy :: "LocalProxyConfig \<Rightarrow> err + LocalProxy"
  lp_Start :: "LocalProxy \<Rightarrow> Context \<Rightarrow> err option"
  lp_SSHProxy :: "LocalProxy \<Rightarrow> err option"
  lp_GetAddr :: "LocalProxy \<Rightarrow> string"
  tls_LoadX509KeyPair :: "string \<Rightarrow> string \<Rightarrow> err + tls_Certificate"
  tls_X509KeyPair :: "string \<Rightarrow> string \<Rightarrow> err + tls_Certificate"
  x509_ParseCertificate :: "string \<Rightarrow> err + x509_Certificate"
  time_Now :: Time
  getSSHPath :: "err + string"
  profile_FullProfilePath :: "string \<Rightarrow> string"
  keypaths_KnownHostsPath :: "string \<Rightarrow> string"
  child_Run :: "Cmd \<Rightarrow> err option"
  StatusCurrent :: "string \<Rightarrow> string \<Rightarrow> err + ProfileStatus"
  CACertPathForCluster :: "ProfileStatus \<Rightarrow> string \<Rightarrow> string"
  DatabaseCertPathForCluster :: "ProfileStatus \<Rightarrow> string \<Rightarrow> string \<Rightarrow> string"
  KeyPath :: "ProfileStatus \<Rightarrow> string"
  stdout_Write :: "string \<Rightarrow> err option"

definition time_Until :: "ext \<Rightarrow> Time \<Rightarrow> Duration" where
  "time_Until X t = time_Sub t (time_Now X)"

subsection \<open>sshProxyWithTLSRouting\<close>

definition sshProxyWithTLSRouting ::
  "ext \<Rightarrow> CLIConf \<Rightarrow> TeleportClient \<Rightarrow> string \<Rightarrow> string \<Rightarrow> err option \<times> event list" where
  "sshProxyWithTLSRouting X cf tc targetHost targetPort =
     (case utils_ParseAddr_Host X (tc_WebProxyAddr tc) of
        Inl e \<Rightarrow> (Some (trace_Wrap e), [])
      | Inr address_Host \<Rightarrow>
     (case ClientCertPool X tc (tc_SiteName tc) of
        Inl e \<Rightarrow> (Some (trace_Wrap e), [])
      | Inr pool \<Rightarrow>
     (let tlsConfig = \<lparr>RootCAs = Some pool\<rparr>;
          cfg = LocalProxyConfig_zero
            \<lparr>RemoteProxyAddr := tc_WebProxyAddr tc,
             Protocol := Some ProtocolProxySSH,
             InsecureSkipVerify := cf_InsecureSkipVerify cf,
             ParentContext := Some (cf_Context cf),
             SNI := address_Host,
             SSHUser := tc_HostLogin tc,
             SSHUserHost := targetHost @ '':'' @ targetPort,
             SSHHostKeyCallback := Some (tc_HostKeyCallback tc),
             SSHTrustedCluster := cf_SiteName cf,
             ClientTLSConfig := Some tlsConfig\<rparr>
      in case alpnproxy_NewLocalProxy X cfg of
           Inl e \<Rightarrow> (Some (trace_Wrap e), [EvNewLocalProxy cfg])
         | Inr lp \<Rightarrow>
          (case lp_SSHProxy X lp of
             Some e \<Rightarrow> (Some (trace_Wrap e), [EvNewLocalProxy cfg, EvLpSSHProxy lp, EvLpClose lp])
           | None \<Rightarrow> (None, [EvNewLocalProxy cfg, EvLpSSHProxy lp, EvLpClose lp])))))"

subsection \<open>sshProxy\<close>

definition sshProxy ::
  "ext \<Rightarrow> CLIConf \<Rightarrow> TeleportClient \<Rightarrow> string \<Rightarrow> string \<Rightarrow> err option \<times> event list" where
  "sshProxy X cf tc targetHost targetPort =
     (case getSSHPath X of
        Inl e \<Rightarrow> (Some (trace_Wrap e), [])
      | Inr sshPath \<Rightarrow>
     (let keysDir = profile_FullProfilePath X (tc_KeysDir tc);
          knownHostsPath = keypaths_KnownHostsPath X keysDir;
          (sshHost, sshPort) = SSHProxyHostPort X tc;
          args = [''-A'',
                  ''-o'', ''UserKnownHostsFile='' @ knownHostsPath,
                  ''-p'', strconv_Itoa sshPort,
                  sshHost,
                  ''-s'',
                  ''proxy:'' @ targetHost @ '':'' @ targetPort @ ''@'' @ tc_SiteName tc];
          args = (if tc_HostLogin tc \<noteq> [] then [''-l'', tc_HostLogin tc] @ args else args);
          child = (exec_Command sshPath args)
            \<lparr>Stdin := Some os_Stdin, Stdout := Some os_Stdout, Stderr := Some os_Stderr\<rparr>
      in (map_option trace_Wrap (child_Run X child), [EvExec child])))"

subsection \<open>onProxyCommandSSH\<close>

definition onProxyCommandSSH :: "ext \<Rightarrow> CLIConf \<Rightarrow> err option \<times> event list" where
  "onProxyCommandSSH X cf =
     (case makeClient X cf False of
        Inl e \<Rightarrow> (Some (trace_Wrap e), [])
      | Inr tc \<Rightarrow>
     (case net_SplitHostPort X (tc_Host tc) of
        Inl e \<Rightarrow> (Some (trace_Wrap e), [])
      | Inr (targetHost, targetPort) \<Rightarrow>
     (let targetHost = cleanTargetHost targetHost (WebProxyHost X tc) (tc_SiteName tc)
      in if tc_TLSRoutingEnabled tc
         then (case sshProxyWithTLSRouting X cf tc targetHost targetPort of
                 (r, evs) \<Rightarrow> (map_option trace_Wrap r, evs))
         else (case sshProxy X cf tc targetHost targetPort of
                 (r, evs) \<Rightarrow> (map_option trace_Wrap r, evs)))))"

subsection \<open>mkLocalProxyCerts and mkLocalProxy\<close>

definition mkLocalProxyCerts ::
  "ext \<Rightarrow> string \<Rightarrow> string \<Rightarrow> (err + tls_Certificate list) \<times> event list" where
  "mkLocalProxyCerts X certFile keyFile =
     (if certFile = [] \<and> keyFile = [] then (Inr [], [])
      else if certFile = [] \<and> keyFile \<noteq> [] \<or> certFile \<noteq> [] \<and> keyFile = []
      then (Inl (BadParameter ''both --cert-file and --key-file are required''), [])
      else (case tls_LoadX509KeyPair X certFile keyFile of
              Inl e \<Rightarrow> (Inl (trace_Wrap e), [EvLoadX509KeyPair certFile keyFile])
            | Inr cert \<Rightarrow> (Inr [cert], [EvLoadX509KeyPair certFile keyFile])))"

definition mkLocalProxy ::
  "ext \<Rightarrow> Context \<Rightarrow> localProxyOpts \<Rightarrow> (err + LocalProxy) \<times> event list" where
  "mkLocalProxy X ctx opts =
     (case ToALPNProtocol X (opts_protocol opts) of
        Inl e \<Rightarrow> (Inl (trace_Wrap e), [])
      | Inr alpnProtocol \<Rightarrow>
     (case utils_ParseAddr_Host X (opts_proxyAddr opts) of
        Inl e \<Rightarrow> (Inl (trace_Wrap e), [])
      | Inr address_Host \<Rightarrow>
     (case mkLocalProxyCerts X (opts_certFile opts) (opts_keyFile opts) of
        (Inl e, evs) \<Rightarrow> (Inl (trace_Wrap e), evs)
      | (Inr certs, evs) \<Rightarrow>
     (let cfg = LocalProxyConfig_zero
            \<lparr>InsecureSkipVerify := opts_insecure opts,
             RemoteProxyAddr := opts_proxyAddr opts,
             Protocol := Some alpnProtocol,
             Listener := Some (opts_listener opts),
             ParentContext := Some ctx,
             SNI := address_Host,
             Certs := certs\<rparr>
      in case alpnproxy_NewLocalProxy X cfg of
           Inl e \<Rightarrow> (Inl (trace_Wrap e), evs @ [EvNewLocalProxy cfg])
         | Inr lp \<Rightarrow> (Inr lp, evs @ [EvNewLocalProxy cfg])))))"

subsection \<open>onProxyCommandDB\<close>

text \<open>The banner of \<open>dbProxyTpl\<close>, rendered for the five values of the map.\<close>

definition dbProxyTpl :: "string \<Rightarrow> string \<Rightarrow> string \<Rightarrow> string \<Rightarrow> string \<Rightarrow> string" where
  "dbProxyTpl database address ca cert key =
     ''Started DB proxy on '' @ address @ [CHR 0x0A, CHR 0x0A]
     @ ''Use following credentials to connect to the '' @ database @ '' proxy:'' @ [CHR 0x0A]
     @ ''  ca_file='' @ ca @ [CHR 0x0A]
     @ ''  cert_file='' @ cert @ [CHR 0x0A]
     @ ''  key_file='' @ key @ [CHR 0x0A]"

text \<open>
  The deferred \<^verbatim>\<open>listener.Close()\<close> of onProxyCommandDB, which runs at every return
  after the listener is bound and logs a failure to close.
\<close>

definition deferred_listener_Close :: "ext \<Rightarrow> net_Listener \<Rightarrow> event list" where
  "deferred_listener_Close X l =
     (case listener_Close X l of
        Some e \<Rightarrow> [EvListenerClose l, EvLog ''Failed to close listener.'']
      | None \<Rightarrow> [EvListenerClose l])"

definition onProxyCommandDB :: "ext \<Rightarrow> CLIConf \<Rightarrow> err option \<times> event list" where
  "onProxyCommandDB X cf =
     (case makeClient X cf False of
        Inl e \<Rightarrow> (Some (trace_Wrap e), [])
      | Inr client \<Rightarrow>
     (case pickActiveDatabase X cf of
        Inl e \<Rightarrow> (Some (trace_Wrap e), [])
      | Inr database \<Rightarrow>
     (case RootClusterName X client of
        Inl e \<Rightarrow> (Some (trace_Wrap e), [])
      | Inr rootCluster \<Rightarrow>
     (let addr = (if cf_LocalProxyPort cf \<noteq> [] then ''127.0.0.1:'' @ cf_LocalProxyPort cf
                  else ''localhost:0'')
      in case net_Listen X ''tcp'' addr of
           Inl e \<Rightarrow> (Some (trace_Wrap e), [EvNetListen ''tcp'' addr])
         | Inr l \<Rightarrow>
     (case mkLocalProxy X (cf_Context cf)
             \<lparr>opts_proxyAddr = tc_WebProxyAddr client,
              opts_listener = l,
              opts_protocol = db_Protocol database,
              opts_insecure = cf_InsecureSkipVerify cf,
              opts_certFile = cf_LocalProxyCertFile cf,
              opts_keyFile = cf_LocalProxyKeyFile cf\<rparr> of
        (Inl e, evs) \<Rightarrow>
          (Some (trace_Wrap e), [EvNetListen ''tcp'' addr] @ evs @ deferred_listener_Close X l)
      | (Inr lp, evs) \<Rightarrow>
     (let evs1 = [EvNetListen ''tcp'' addr] @ evs @ [EvGoCloseOnDone lp]
      in case StatusCurrent X (cf_HomePath cf) (cf_Proxy cf) of
           Inl e \<Rightarrow> (Some (trace_Wrap e), evs1 @ deferred_listener_Close X l)
         | Inr profile \<Rightarrow>
     (let banner = dbProxyTpl (db_ServiceName database) (Addr_String l)
                     (CACertPathForCluster X profile rootCluster)
                     (DatabaseCertPathForCluster X profile (cf_SiteName cf)
                        (db_ServiceName database))
                     (KeyPath X profile)
      in case stdout_Write X banner of
           Some e \<Rightarrow> (Some (trace_Wrap e), evs1 @ [EvStdout banner] @ deferred_listener_Close X l)
         | None \<Rightarrow>
            (map_option trace_Wrap (lp_Start X lp (cf_Context cf)),
             evs1 @ [EvStdout banner, EvLpStart lp, EvLpClose lp]
             @ deferred_listener_Close X l))))))))"

subsection \<open>loadAppCertificate\<close>

text \<open>The three messages of loadAppCertificate; \<open>CHR 0x27\<close> is the single quote.\<close>

definition msg_login_first :: string where
  "msg_login_first =
     ''please login into the application first. '' @ [CHR 0x27] @ ''tsh app login'' @ [CHR 0x27]"

definition msg_invalid_certificate :: string where
  "msg_invalid_certificate =
     ''invalid certificate - please login to the application again. ''
     @ [CHR 0x27] @ ''tsh app login'' @ [CHR 0x27]"

definition msg_expired :: "string \<Rightarrow> string" where
  "msg_expired appName =
     ''application '' @ appName
     @ '' certificate has expired, please re-login to the app using ''
     @ [CHR 0x27] @ ''tsh app login'' @ [CHR 0x27]"

text \<open>
  The Go function returns a pair of a certificate and an error, and the zero certificate
  beside every error: \<open>Inl e\<close> here.
\<close>

definition loadAppCertificate :: "ext \<Rightarrow> TeleportClient \<Rightarrow> string \<Rightarrow> err + tls_Certificate" where
  "loadAppCertificate X tc appName =
     (case GetKey X tc (tc_SiteName tc) of
        Inl e \<Rightarrow> Inl (trace_Wrap e)
      | Inr key \<Rightarrow>
     (case AppTLSCerts key appName of
        None \<Rightarrow> Inl (NotFound msg_login_first)
      | Some cc \<Rightarrow>
     (case tls_X509KeyPair X cc (Priv key) of
        Inl e \<Rightarrow> Inl (trace_Wrap e)
      | Inr cert \<Rightarrow>
     (if length (Certificate cert) < 1 then Inl (NotFound msg_invalid_certificate)
      else (case x509_ParseCertificate X (Certificate cert ! 0) of
              Inl e \<Rightarrow> Inl (trace_Wrap e)
            | Inr x509cert \<Rightarrow>
               (if time_Until X (NotAfter x509cert) < 5 * time_Second
                then Inl (BadParameter (msg_expired appName))
                else Inr cert))))))"

subsection \<open>onProxyCommandApp\<close>

definition onProxyCommandApp :: "ext \<Rightarrow> CLIConf \<Rightarrow> err option \<times> event list" where
  "onProxyCommandApp X cf =
     (case makeClient X cf False of
        Inl e \<Rightarrow> (Some (trace_Wrap e), [])
      | Inr tc \<Rightarrow>
     (case loadAppCertificate X tc (cf_AppName cf) of
        Inl e \<Rightarrow> (Some (trace_Wrap e), [])
      | Inr appCerts \<Rightarrow>
     (case utils_ParseAddr_Host X (tc_WebProxyAddr tc) of
        Inl e \<Rightarrow> (Some (trace_Wrap e), [])
      | Inr address_Host \<Rightarrow>
     (let addr = (if cf_LocalProxyPort cf \<noteq> [] then ''127.0.0.1:'' @ cf_LocalProxyPort cf
                  else ''localhost:0'')
      in case net_Listen X ''tcp'' addr of
           Inl e \<Rightarrow> (Some (trace_Wrap e), [EvNetListen ''tcp'' addr])
         | Inr l \<Rightarrow>
     (let cfg = LocalProxyConfig_zero
            \<lparr>Listener := Some l,
             RemoteProxyAddr := tc_WebProxyAddr tc,
             Protocol := Some ProtocolHTTP,
             InsecureSkipVerify := cf_InsecureSkipVerify cf,
             ParentContext := Some (cf_Context cf),
             SNI := address_Host,
             Certs := [appCerts]\<rparr>
      in case alpnproxy_NewLocalProxy X cfg of
           Inl e \<Rightarrow>
            (case listener_Close X l of
               Some cerr \<Rightarrow>
                (Some (trace_NewAggregate e cerr),
                 [EvNetListen ''tcp'' addr, EvNewLocalProxy cfg, EvListenerClose l])
             | None \<Rightarrow>
                (Some (trace_Wrap e),
                 [EvNetListen ''tcp'' addr, EvNewLocalProxy cfg, EvListenerClose l]))
         | Inr lp \<Rightarrow>
     (let out = ''Proxying connections to '' @ cf_AppName cf @ '' on '' @ lp_GetAddr X lp
                @ [CHR 0x0A];
          evs1 = [EvNetListen ''tcp'' addr, EvNewLocalProxy cfg, EvStdout out,
                  EvGoCloseOnDone lp, EvLpStart lp]
      in case lp_Start X lp (cf_Context cf) of
           Some e \<Rightarrow> (None, evs1 @ [EvLog ''Failed to start local proxy.'', EvLpClose lp])
         | None \<Rightarrow> (None, evs1 @ [EvLpClose lp])))))))"

subsection \<open>A concrete run\<close>

text \<open>
  One set of answers of the collaborators, for evaluating the commands: a client for node
  \<open>node1\<close> behind \<open>proxy.example.com\<close>, a cached certificate for the application
  \<open>grafana\<close> that expires two seconds from now, and a child process that exits with
  status 255.
\<close>

definition tc0 :: TeleportClient where
  "tc0 = \<lparr>tc_Host = ''node1.proxy.example.com:22'',
           tc_WebProxyAddr = ''proxy.example.com:443'',
           tc_SiteName = ''example.com'',
           tc_HostLogin = ''alice'',
           tc_TLSRoutingEnabled = False,
           tc_KeysDir = ''/home/alice/.tsh'',
           tc_HostKeyCallback = 0\<rparr>"

definition cf0 :: CLIConf where
  "cf0 = \<lparr>cf_Context = 0,
           cf_InsecureSkipVerify = False,
           cf_SiteName = ''leaf'',
           cf_LocalProxyPort = [],
           cf_LocalProxyCertFile = ''cert.pem'',
           cf_LocalProxyKeyFile = [],
           cf_AppName = ''grafana'',
           cf_HomePath = [],
           cf_Proxy = []\<rparr>"

text \<open>The same invocation with a key file and no certificate file, on port 5432.\<close>

definition cf1 :: CLIConf where
  "cf1 = cf0\<lparr>cf_LocalProxyPort := ''5432'', cf_LocalProxyCertFile := [],
               cf_LocalProxyKeyFile := ''key.pem''\<rparr>"

text \<open>A second shell target: another login and another trusted cluster.\<close>

definition tc1 :: TeleportClient where
  "tc1 = tc0\<lparr>tc_HostLogin := ''bob''\<rparr>"

definition cf2 :: CLIConf where
  "cf2 = cf0\<lparr>cf_SiteName := ''other''\<rparr>"

definition ext0 :: ext where
  "ext0 =
     \<lparr>makeClient = (\<lambda>cf b. Inr tc0),
      pickActiveDatabase = (\<lambda>cf. Inr \<lparr>db_ServiceName = ''pg'', db_Protocol = ''postgres''\<rparr>),
      RootClusterName = (\<lambda>tc. Inr ''example.com''),
      WebProxyHost = (\<lambda>tc. ''proxy.example.com''),
      SSHProxyHostPort = (\<lambda>tc. (''proxy.example.com'', 3023)),
      ClientCertPool = (\<lambda>tc site. Inr (CertPool 0)),
      GetKey = (\<lambda>tc site. Inr \<lparr>AppTLSCerts = [''grafana'' \<mapsto> ''PEM''], Priv = ''KEY''\<rparr>),
      net_SplitHostPort = (\<lambda>hp. if hp = ''node1.proxy.example.com:22''
                                  then Inr (''node1.proxy.example.com'', ''22'')
                                  else Inl (ExternalError ''missing port in address'')),
      net_Listen = (\<lambda>network addr. Inr (NetListener addr)),
      listener_Close = (\<lambda>l. None),
      utils_ParseAddr_Host = (\<lambda>a. if a = ''proxy.example.com:443''
                                     then Inr ''proxy.example.com''
                                     else Inl (BadParameter ''failed to parse'')),
      ToALPNProtocol = (\<lambda>p. if p = ''postgres'' then Inr (ProtocolDatabase ''postgres'')
                               else Inl (BadParameter ''unsupported protocol'')),
      alpnproxy_NewLocalProxy = (\<lambda>cfg. Inr (LocalProxy cfg)),
      lp_Start = (\<lambda>lp ctx. None),
      lp_SSHProxy = (\<lambda>lp. None),
      lp_GetAddr = (\<lambda>lp. ''127.0.0.1:4000''),
      tls_LoadX509KeyPair = (\<lambda>c k. Inr (TlsCertificate [c] k)),
      tls_X509KeyPair = (\<lambda>c k. Inr (TlsCertificate [c] k)),
      x509_ParseCertificate = (\<lambda>der. Inr (X509Certificate (1000 * time_Second))),
      time_Now = 998 * time_Second,
      getSSHPath = Inr ''/usr/bin/ssh'',
      profile_FullProfilePath = (\<lambda>d. d),
      keypaths_KnownHostsPath = (\<lambda>d. d @ ''/known_hosts''),
      child_Run = (\<lambda>c. Some (ExternalError ''exit status 255'')),
      StatusCurrent = (\<lambda>home proxy. Inr (ProfileStatus 0)),
      CACertPathForCluster = (\<lambda>p cluster. ''ca.pem''),
      DatabaseCertPathForCluster = (\<lambda>p site db. ''db.pem''),
      KeyPath = (\<lambda>p. ''key.pem''),
      stdout_Write = (\<lambda>s. None)\<rparr>"

text \<open>
  The same answers, but the certificate is still valid for 1000 seconds, the proxy library
  refuses the configuration, and closing the listener fails.
\<close>

definition ext1 :: ext where
  "ext1 = ext0
     \<lparr>time_Now := 0,
      alpnproxy_NewLocalProxy := (\<lambda>cfg. Inl (BadParameter ''missing protocol'')),
      listener_Close := (\<lambda>l. Some (ExternalError ''use of closed network connection''))\<rparr>"

text \<open>The configurations handed to \<open>alpnproxy.NewLocalProxy\<close> in a run, in order.\<close>

fun new_proxy_configs :: "event list \<Rightarrow> LocalProxyConfig list" where
  "new_proxy_configs [] = []"
| "new_proxy_configs (EvNewLocalProxy cfg # evs) = cfg # new_proxy_configs evs"
| "new_proxy_configs (_ # evs) = new_proxy_configs evs"

section \<open>Properties\<close>

subsection \<open>Suffix trimming\<close>

lemma HasSuffix_iff_suffix: "strings_HasSuffix s suf \<longleftrightarrow> suffix suf s"
proof
  assume "strings_HasSuffix s suf"
  then have "s = take (length s - length suf) s @ suf"
    by (metis append_take_drop_id strings_HasSuffix_def)
  then show "suffix suf s"
    by (metis suffixI)
next
  assume "suffix suf s"
  then obtain zs where "s = zs @ suf"
    by (auto simp: suffix_def)
  then show "strings_HasSuffix s suf"
    by (simp add: strings_HasSuffix_def)
qed

lemma TrimSuffix_append: "strings_TrimSuffix (x @ suf) suf = x"
  by (simp add: strings_TrimSuffix_def strings_HasSuffix_def)

lemma TrimSuffix_no_suffix: "\<not> suffix suf s \<Longrightarrow> strings_TrimSuffix s suf = s"
  by (simp add: strings_TrimSuffix_def HasSuffix_iff_suffix)

text \<open>
  C4. Hostname cleaning strips one trailing \<open>.<proxyHost>\<close> first and then one trailing
  \<open>.<siteName>\<close> from what is left: a host ending in \<open>.<proxyHost>\<close> loses exactly that
  suffix before the site suffix is looked for, a host without it goes to the site step
  unchanged, and the site step removes exactly one \<open>.<siteName>\<close> when there is one and
  nothing otherwise. Host \<open>node1.proxy.example.com\<close> with proxy host
  \<open>proxy.example.com\<close> and site \<open>example.com\<close> is cleaned to \<open>node1\<close>.
\<close>

theorem cleanTargetHost_strips_proxy_then_site:
  "cleanTargetHost (x @ ''.'' @ p) p s = strings_TrimSuffix x (''.'' @ s)
   \<and> (\<not> suffix (''.'' @ p) h \<longrightarrow> cleanTargetHost h p s = strings_TrimSuffix h (''.'' @ s))
   \<and> strings_TrimSuffix (y @ ''.'' @ s) (''.'' @ s) = y
   \<and> (\<not> suffix (''.'' @ s) z \<longrightarrow> strings_TrimSuffix z (''.'' @ s) = z)
   \<and> cleanTargetHost ''node1.proxy.example.com'' ''proxy.example.com'' ''example.com''
       = ''node1''"
proof -
  have a: "cleanTargetHost (x @ ''.'' @ p) p s = strings_TrimSuffix x (''.'' @ s)"
    unfolding cleanTargetHost_def Let_def by (simp only: TrimSuffix_append)
  have b: "\<not> suffix (''.'' @ p) h \<longrightarrow> cleanTargetHost h p s = strings_TrimSuffix h (''.'' @ s)"
    unfolding cleanTargetHost_def Let_def by (simp add: TrimSuffix_no_suffix)
  have c: "strings_TrimSuffix (y @ ''.'' @ s) (''.'' @ s) = y"
    by (rule TrimSuffix_append)
  have d: "\<not> suffix (''.'' @ s) z \<longrightarrow> strings_TrimSuffix z (''.'' @ s) = z"
    by (simp add: TrimSuffix_no_suffix)
  have e: "cleanTargetHost ''node1.proxy.example.com'' ''proxy.example.com'' ''example.com''
       = ''node1''"
    by (simp add: cleanTargetHost_def strings_TrimSuffix_def strings_HasSuffix_def)
  from a b c d e show ?thesis by blast
qed

theorem cleanTargetHost_strips_proxy_then_site_witness:
  "\<not> suffix (''.'' @ ''proxy.example.com'') ''node1.example.com''
   \<and> cleanTargetHost ''node1.example.com'' ''proxy.example.com'' ''example.com'' = ''node1''
   \<and> \<not> suffix (''.'' @ ''example.com'') ''node1''
   \<and> strings_TrimSuffix ''node1'' (''.'' @ ''example.com'') = ''node1''"
proof -
  have h1: "\<not> suffix (''.'' @ ''proxy.example.com'') ''node1.example.com''"
    by (simp add: suffix_def)
  have h2: "\<not> suffix (''.'' @ ''example.com'') ''node1''"
    by (simp add: suffix_def)
  note t = cleanTargetHost_strips_proxy_then_site
    [of "''node1''" "''proxy.example.com''" "''example.com''" "''node1.example.com''"
        "''node1''" "''node1''"]
  have "cleanTargetHost ''node1.example.com'' ''proxy.example.com'' ''example.com''
        = strings_TrimSuffix ''node1.example.com'' (''.'' @ ''example.com'')"
    using t h1 by blast
  moreover have "strings_TrimSuffix (''node1'' @ ''.'' @ ''example.com'') (''.'' @ ''example.com'') = ''node1''"
    using t by blast
  moreover have "strings_TrimSuffix ''node1'' (''.'' @ ''example.com'') = ''node1''"
    using t h2 by blast
  ultimately show ?thesis using h1 h2 by simp
qed

subsection \<open>The answers of the concrete run\<close>

lemma ext0_client:
  "makeClient ext0 cf b = Inr tc0"
  "pickActiveDatabase ext0 cf = Inr \<lparr>db_ServiceName = ''pg'', db_Protocol = ''postgres''\<rparr>"
  "RootClusterName ext0 tc = Inr ''example.com''"
  "WebProxyHost ext0 tc = ''proxy.example.com''"
  "SSHProxyHostPort ext0 tc = (''proxy.example.com'', 3023)"
  "ClientCertPool ext0 tc site = Inr (CertPool 0)"
  "GetKey ext0 tc site = Inr \<lparr>AppTLSCerts = [''grafana'' \<mapsto> ''PEM''], Priv = ''KEY''\<rparr>"
  "net_SplitHostPort ext0 ''node1.proxy.example.com:22''
     = Inr (''node1.proxy.example.com'', ''22'')"
  "utils_ParseAddr_Host ext0 ''proxy.example.com:443'' = Inr ''proxy.example.com''"
  "ToALPNProtocol ext0 ''postgres'' = Inr (ProtocolDatabase ''postgres'')"
  by (simp_all add: ext0_def)

lemma ext0_io:
  "net_Listen ext0 network addr = Inr (NetListener addr)"
  "listener_Close ext0 l = None"
  "alpnproxy_NewLocalProxy ext0 cfg = Inr (LocalProxy cfg)"
  "lp_Start ext0 lp ctx = None"
  "lp_SSHProxy ext0 lp = None"
  "lp_GetAddr ext0 lp = ''127.0.0.1:4000''"
  "tls_LoadX509KeyPair ext0 pem k = Inr (TlsCertificate [pem] k)"
  "tls_X509KeyPair ext0 pem k = Inr (TlsCertificate [pem] k)"
  "x509_ParseCertificate ext0 der = Inr (X509Certificate (1000 * time_Second))"
  "time_Now ext0 = 998 * time_Second"
  "getSSHPath ext0 = Inr ''/usr/bin/ssh''"
  "profile_FullProfilePath ext0 d = d"
  "keypaths_KnownHostsPath ext0 d = d @ ''/known_hosts''"
  "child_Run ext0 child = Some (ExternalError ''exit status 255'')"
  "StatusCurrent ext0 home proxy = Inr (ProfileStatus 0)"
  "stdout_Write ext0 out = None"
  by (simp_all add: ext0_def)

lemma tc0_fields:
  "tc_Host tc0 = ''node1.proxy.example.com:22''"
  "tc_WebProxyAddr tc0 = ''proxy.example.com:443''"
  "tc_SiteName tc0 = ''example.com''"
  "tc_HostLogin tc0 = ''alice''"
  "tc_TLSRoutingEnabled tc0 = False"
  "tc_KeysDir tc0 = ''/home/alice/.tsh''"
  "tc_HostKeyCallback tc0 = 0"
  by (simp_all add: tc0_def)

lemma cf0_fields:
  "cf_Context cf0 = 0"
  "cf_InsecureSkipVerify cf0 = False"
  "cf_SiteName cf0 = ''leaf''"
  "cf_LocalProxyPort cf0 = []"
  "cf_LocalProxyCertFile cf0 = ''cert.pem''"
  "cf_LocalProxyKeyFile cf0 = []"
  "cf_AppName cf0 = ''grafana''"
  by (simp_all add: cf0_def)

subsection \<open>Certificate files\<close>

text \<open>
  C1 (as the code has it). Whenever exactly one of the certificate path and the key path
  is non-empty, mkLocalProxyCerts fails with the parameter error "both --cert-file and
  --key-file are required" and reads no file. In the database proxy command the failure
  comes after the local listener is bound: when the steps before it succeed, the command
  binds the listener, closes it again through its deferred close, builds no local proxy,
  and returns that parameter error.
\<close>

theorem mkLocalProxyCerts_partial_pair:
  assumes partial: "(cf_LocalProxyCertFile cf = []) \<noteq> (cf_LocalProxyKeyFile cf = [])"
  shows "mkLocalProxyCerts X (cf_LocalProxyCertFile cf) (cf_LocalProxyKeyFile cf)
           = (Inl (BadParameter ''both --cert-file and --key-file are required''), [])
         \<and> (makeClient X cf False = Inr client
              \<and> pickActiveDatabase X cf = Inr database
              \<and> RootClusterName X client = Inr rootCluster
              \<and> net_Listen X ''tcp'' (if cf_LocalProxyPort cf \<noteq> []
                                        then ''127.0.0.1:'' @ cf_LocalProxyPort cf
                                        else ''localhost:0'') = Inr l
              \<and> ToALPNProtocol X (db_Protocol database) = Inr alpn
              \<and> utils_ParseAddr_Host X (tc_WebProxyAddr client) = Inr host
            \<longrightarrow> onProxyCommandDB X cf
                  = (Some (BadParameter ''both --cert-file and --key-file are required''),
                     [EvNetListen ''tcp'' (if cf_LocalProxyPort cf \<noteq> []
                                           then ''127.0.0.1:'' @ cf_LocalProxyPort cf
                                           else ''localhost:0'')]
                     @ deferred_listener_Close X l))"
proof -
  have certs: "mkLocalProxyCerts X (cf_LocalProxyCertFile cf) (cf_LocalProxyKeyFile cf)
           = (Inl (BadParameter ''both --cert-file and --key-file are required''), [])"
    using partial by (auto simp: mkLocalProxyCerts_def)
  have mk: "mkLocalProxy X ctx
              \<lparr>opts_proxyAddr = tc_WebProxyAddr client, opts_listener = l,
               opts_protocol = db_Protocol database, opts_insecure = i,
               opts_certFile = cf_LocalProxyCertFile cf,
               opts_keyFile = cf_LocalProxyKeyFile cf\<rparr>
            = (Inl (BadParameter ''both --cert-file and --key-file are required''), [])"
    if "ToALPNProtocol X (db_Protocol database) = Inr alpn"
      and "utils_ParseAddr_Host X (tc_WebProxyAddr client) = Inr host" for ctx i
    using that certs by (simp add: mkLocalProxy_def trace_Wrap_def)
  show ?thesis
    using certs mk by (auto simp: onProxyCommandDB_def trace_Wrap_def Let_def)
qed

theorem mkLocalProxyCerts_partial_pair_witness:
  "(cf_LocalProxyCertFile cf0 = []) \<noteq> (cf_LocalProxyKeyFile cf0 = [])
   \<and> mkLocalProxyCerts ext0 ''cert.pem'' []
       = (Inl (BadParameter ''both --cert-file and --key-file are required''), [])
   \<and> onProxyCommandDB ext0 cf0
       = (Some (BadParameter ''both --cert-file and --key-file are required''),
          [EvNetListen ''tcp'' ''localhost:0'', EvListenerClose (NetListener ''localhost:0'')])"
proof -
  have h: "(cf_LocalProxyCertFile cf0 = []) \<noteq> (cf_LocalProxyKeyFile cf0 = [])"
    by (simp add: cf0_fields)
  have pre: "makeClient ext0 cf0 False = Inr tc0
      \<and> pickActiveDatabase ext0 cf0 = Inr \<lparr>db_ServiceName = ''pg'', db_Protocol = ''postgres''\<rparr>
      \<and> RootClusterName ext0 tc0 = Inr ''example.com''
      \<and> net_Listen ext0 ''tcp'' (if cf_LocalProxyPort cf0 \<noteq> []
                                   then ''127.0.0.1:'' @ cf_LocalProxyPort cf0
                                   else ''localhost:0'') = Inr (NetListener ''localhost:0'')
      \<and> ToALPNProtocol ext0 (db_Protocol \<lparr>db_ServiceName = ''pg'', db_Protocol = ''postgres''\<rparr>)
          = Inr (ProtocolDatabase ''postgres'')
      \<and> utils_ParseAddr_Host ext0 (tc_WebProxyAddr tc0) = Inr ''proxy.example.com''"
    by (simp add: ext0_client ext0_io cf0_fields tc0_fields)
  have cl: "deferred_listener_Close ext0 (NetListener ''localhost:0'')
            = [EvListenerClose (NetListener ''localhost:0'')]"
    by (simp add: deferred_listener_Close_def ext0_io)
  note t = mkLocalProxyCerts_partial_pair [OF h, of ext0 tc0
      "\<lparr>db_ServiceName = ''pg'', db_Protocol = ''postgres''\<rparr>" "''example.com''"
      "NetListener ''localhost:0''" "ProtocolDatabase ''postgres''" "''proxy.example.com''"]
  from t pre have "mkLocalProxyCerts ext0 (cf_LocalProxyCertFile cf0) (cf_LocalProxyKeyFile cf0)
       = (Inl (BadParameter ''both --cert-file and --key-file are required''), [])
     \<and> onProxyCommandDB ext0 cf0
       = (Some (BadParameter ''both --cert-file and --key-file are required''),
          [EvNetListen ''tcp'' (if cf_LocalProxyPort cf0 \<noteq> []
                                then ''127.0.0.1:'' @ cf_LocalProxyPort cf0
                                else ''localhost:0'')]
          @ deferred_listener_Close ext0 (NetListener ''localhost:0''))"
    by blast
  then show ?thesis
    using h by (simp add: cl cf0_fields)
qed

text \<open>
  C1 as stated fails: with a key file and no certificate file, the database proxy command
  returns the parameter error only after \<open>net.Listen\<close> has bound 127.0.0.1:5432.
\<close>

theorem onProxyCommandDB_listens_before_cert_check_counterexample:
  "cf_LocalProxyCertFile cf1 = [] \<and> cf_LocalProxyKeyFile cf1 = ''key.pem''
   \<and> net_Listen ext0 ''tcp'' ''127.0.0.1:5432'' = Inr (NetListener ''127.0.0.1:5432'')
   \<and> onProxyCommandDB ext0 cf1
       = (Some (BadParameter ''both --cert-file and --key-file are required''),
          [EvNetListen ''tcp'' ''127.0.0.1:5432'',
           EvListenerClose (NetListener ''127.0.0.1:5432'')])"
proof -
  have cf: "cf_LocalProxyCertFile cf1 = []" "cf_LocalProxyKeyFile cf1 = ''key.pem''"
    "cf_LocalProxyPort cf1 = ''5432''"
    by (simp_all add: cf1_def cf0_def)
  have certs: "mkLocalProxyCerts ext0 [] ''key.pem''
      = (Inl (BadParameter ''both --cert-file and --key-file are required''), [])"
    by (simp add: mkLocalProxyCerts_def)
  have mk: "mkLocalProxy ext0 ctx
      \<lparr>opts_proxyAddr = ''proxy.example.com:443'', opts_listener = l,
       opts_protocol = ''postgres'', opts_insecure = i,
       opts_certFile = [], opts_keyFile = ''key.pem''\<rparr>
      = (Inl (BadParameter ''both --cert-file and --key-file are required''), [])" for ctx l i
    by (simp add: mkLocalProxy_def certs trace_Wrap_def ext0_client)
  have run: "onProxyCommandDB ext0 cf1
       = (Some (BadParameter ''both --cert-file and --key-file are required''),
          [EvNetListen ''tcp'' ''127.0.0.1:5432'',
           EvListenerClose (NetListener ''127.0.0.1:5432'')])"
    unfolding onProxyCommandDB_def
    by (simp add: cf Let_def trace_Wrap_def deferred_listener_Close_def
          ext0_client ext0_io tc0_fields mk)
  show ?thesis
    using cf run by (simp add: ext0_io)
qed

subsection \<open>Shell-mode tunnelling\<close>

lemma sshProxyWithTLSRouting_configs:
  assumes "utils_ParseAddr_Host X (tc_WebProxyAddr tc) = Inr host"
    and "ClientCertPool X tc (tc_SiteName tc) = Inr pool"
  shows "new_proxy_configs (snd (sshProxyWithTLSRouting X cf tc targetHost targetPort))
         = [LocalProxyConfig_zero
              \<lparr>RemoteProxyAddr := tc_WebProxyAddr tc,
               Protocol := Some ProtocolProxySSH,
               InsecureSkipVerify := cf_InsecureSkipVerify cf,
               ParentContext := Some (cf_Context cf),
               SNI := host,
               SSHUser := tc_HostLogin tc,
               SSHUserHost := targetHost @ '':'' @ targetPort,
               SSHHostKeyCallback := Some (tc_HostKeyCallback tc),
               SSHTrustedCluster := cf_SiteName cf,
               ClientTLSConfig := Some \<lparr>RootCAs = Some pool\<rparr>\<rparr>]"
  using assms
  by (simp add: sshProxyWithTLSRouting_def Let_def split: sum.splits option.splits)

text \<open>
  C2 (as the code has it). For shell-mode tunnelling over TLS routing, the hostname
  indication (SNI) handed to the local proxy is the host of the web proxy address, whatever
  the target; the protocol is the SSH proxy token alone; and the target host and port, the
  login and the trusted-cluster qualifier are handed over in fields of their own:
  \<open>SSHUserHost\<close> as \<open>host:port\<close>, \<open>SSHUser\<close> and \<open>SSHTrustedCluster\<close>.
\<close>

theorem sshProxyWithTLSRouting_sni_is_proxy_host:
  assumes "utils_ParseAddr_Host X (tc_WebProxyAddr tc) = Inr host"
    and "ClientCertPool X tc (tc_SiteName tc) = Inr pool"
  shows "map SNI (new_proxy_configs (snd (sshProxyWithTLSRouting X cf tc targetHost targetPort)))
           = [host]
         \<and> map Protocol (new_proxy_configs (snd (sshProxyWithTLSRouting X cf tc targetHost targetPort)))
           = [Some ProtocolProxySSH]
         \<and> map SSHUserHost (new_proxy_configs (snd (sshProxyWithTLSRouting X cf tc targetHost targetPort)))
           = [targetHost @ '':'' @ targetPort]
         \<and> map SSHUser (new_proxy_configs (snd (sshProxyWithTLSRouting X cf tc targetHost targetPort)))
           = [tc_HostLogin tc]
         \<and> map SSHTrustedCluster (new_proxy_configs (snd (sshProxyWithTLSRouting X cf tc targetHost targetPort)))
           = [cf_SiteName cf]"
  by (simp add: sshProxyWithTLSRouting_configs [OF assms])

theorem sshProxyWithTLSRouting_sni_is_proxy_host_witness:
  "utils_ParseAddr_Host ext0 (tc_WebProxyAddr tc0) = Inr ''proxy.example.com''
   \<and> ClientCertPool ext0 tc0 (tc_SiteName tc0) = Inr (CertPool 0)
   \<and> map SNI (new_proxy_configs (snd (sshProxyWithTLSRouting ext0 cf0 tc0 ''node1'' ''22'')))
       = [''proxy.example.com'']
   \<and> map SSHUserHost (new_proxy_configs (snd (sshProxyWithTLSRouting ext0 cf0 tc0 ''node1'' ''22'')))
       = [''node1:22'']
   \<and> map SSHUser (new_proxy_configs (snd (sshProxyWithTLSRouting ext0 cf0 tc0 ''node1'' ''22'')))
       = [''alice'']
   \<and> map SSHTrustedCluster (new_proxy_configs (snd (sshProxyWithTLSRouting ext0 cf0 tc0 ''node1'' ''22'')))
       = [''leaf'']"
proof -
  have h1: "utils_ParseAddr_Host ext0 (tc_WebProxyAddr tc0) = Inr ''proxy.example.com''"
    by (simp add: ext0_client tc0_fields)
  have h2: "ClientCertPool ext0 tc0 (tc_SiteName tc0) = Inr (CertPool 0)"
    by (simp add: ext0_client)
  show ?thesis
    using h1 h2 sshProxyWithTLSRouting_sni_is_proxy_host [OF h1 h2, of cf0 "''node1''" "''22''"]
    by (simp add: tc0_fields cf0_fields)
qed

text \<open>
  C2 as stated fails: two shell targets that differ in host, port, login and trusted
  cluster are dialled with one and the same hostname indication, so it does not carry
  them.
\<close>

theorem sshProxyWithTLSRouting_sni_ignores_target_counterexample:
  "map SNI (new_proxy_configs (snd (sshProxyWithTLSRouting ext0 cf0 tc0 ''node1'' ''22'')))
     = [''proxy.example.com'']
   \<and> map SNI (new_proxy_configs (snd (sshProxyWithTLSRouting ext0 cf2 tc1 ''node2'' ''2222'')))
     = [''proxy.example.com'']
   \<and> map SSHUserHost (new_proxy_configs (snd (sshProxyWithTLSRouting ext0 cf0 tc0 ''node1'' ''22'')))
     = [''node1:22'']
   \<and> map SSHUserHost (new_proxy_configs (snd (sshProxyWithTLSRouting ext0 cf2 tc1 ''node2'' ''2222'')))
     = [''node2:2222'']"
proof -
  have a: "utils_ParseAddr_Host ext0 (tc_WebProxyAddr tc0) = Inr ''proxy.example.com''"
    "utils_ParseAddr_Host ext0 (tc_WebProxyAddr tc1) = Inr ''proxy.example.com''"
    by (simp_all add: ext0_client tc1_def tc0_def)
  have b: "ClientCertPool ext0 tc0 (tc_SiteName tc0) = Inr (CertPool 0)"
    "ClientCertPool ext0 tc1 (tc_SiteName tc1) = Inr (CertPool 0)"
    by (simp_all add: ext0_client)
  show ?thesis
    by (simp add: sshProxyWithTLSRouting_configs [OF a(1) b(1)]
          sshProxyWithTLSRouting_configs [OF a(2) b(2)])
qed

subsection \<open>Cached application certificates\<close>

lemma time_Sub_less_iff:
  assumes "minDuration < b" "b \<le> maxDuration"
  shows "time_Sub t u < b \<longleftrightarrow> t - u < b"
  using assms by (auto simp: time_Sub_def Let_def)

lemma time_Until_near_expiry:
  "time_Until X t < 5 * time_Second \<longleftrightarrow> t - time_Now X < 5000000000"
proof -
  have "minDuration < 5 * time_Second" "5 * time_Second \<le> maxDuration"
    by (simp_all add: minDuration_def maxDuration_def time_Second_def)
  then have "time_Sub t (time_Now X) < 5 * time_Second \<longleftrightarrow> t - time_Now X < 5 * time_Second"
    by (rule time_Sub_less_iff)
  then show ?thesis
    by (simp add: time_Until_def time_Second_def)
qed

lemma sublist_tsh_app_login:
  "sublist ''tsh app login'' (xs @ [CHR 0x27] @ ''tsh app login'' @ [CHR 0x27])"
proof -
  have "xs @ [CHR 0x27] @ ''tsh app login'' @ [CHR 0x27]
        = (xs @ [CHR 0x27]) @ ''tsh app login'' @ [CHR 0x27]"
    by simp
  then show ?thesis
    unfolding sublist_def by blast
qed

text \<open>
  C3. A cached application certificate that was found and parsed, and whose expiry lies
  less than five seconds after the current time, makes loadAppCertificate fail with the
  parameter classification and a message that names the action \<open>tsh app login\<close>; the
  application proxy command then returns that error before it has bound a listener or
  built a proxy, so with no effect at all.
\<close>

theorem loadAppCertificate_near_expiry:
  assumes "GetKey X tc (tc_SiteName tc) = Inr key"
    and "AppTLSCerts key appName = Some cc"
    and "tls_X509KeyPair X cc (Priv key) = Inr cert"
    and "Certificate cert \<noteq> []"
    and "x509_ParseCertificate X (Certificate cert ! 0) = Inr x509cert"
    and "NotAfter x509cert - time_Now X < 5000000000"
  shows "loadAppCertificate X tc appName = Inl (BadParameter (msg_expired appName))
         \<and> sublist ''tsh app login'' (msg_expired appName)
         \<and> (makeClient X cf False = Inr tc \<and> cf_AppName cf = appName
            \<longrightarrow> onProxyCommandApp X cf = (Some (BadParameter (msg_expired appName)), []))"
proof -
  have near: "time_Until X (NotAfter x509cert) < 5 * time_Second"
    using assms(6) by (simp only: time_Until_near_expiry)
  have load: "loadAppCertificate X tc appName = Inl (BadParameter (msg_expired appName))"
    using assms(1-5) near by (simp add: loadAppCertificate_def)
  have msg: "sublist ''tsh app login'' (msg_expired appName)"
    unfolding msg_expired_def
    using sublist_tsh_app_login
      [of "''application '' @ appName @ '' certificate has expired, please re-login to the app using ''"]
    by simp
  have cmd: "onProxyCommandApp X cf = (Some (BadParameter (msg_expired appName)), [])"
    if "makeClient X cf False = Inr tc" "cf_AppName cf = appName"
    using that load by (simp add: onProxyCommandApp_def trace_Wrap_def)
  from load msg cmd show ?thesis by blast
qed

theorem loadAppCertificate_near_expiry_witness:
  "GetKey ext0 tc0 (tc_SiteName tc0) = Inr \<lparr>AppTLSCerts = [''grafana'' \<mapsto> ''PEM''], Priv = ''KEY''\<rparr>
   \<and> NotAfter (X509Certificate (1000 * time_Second)) - time_Now ext0 < 5000000000
   \<and> loadAppCertificate ext0 tc0 ''grafana'' = Inl (BadParameter (msg_expired ''grafana''))
   \<and> onProxyCommandApp ext0 cf0 = (Some (BadParameter (msg_expired ''grafana'')), [])"
proof -
  let ?key = "\<lparr>AppTLSCerts = [''grafana'' \<mapsto> ''PEM''], Priv = ''KEY''\<rparr>"
  have h1: "GetKey ext0 tc0 (tc_SiteName tc0) = Inr ?key"
    by (simp add: ext0_client)
  have h2: "AppTLSCerts ?key ''grafana'' = Some ''PEM''"
    by simp
  have h3: "tls_X509KeyPair ext0 ''PEM'' (Priv ?key) = Inr (TlsCertificate [''PEM''] ''KEY'')"
    by (simp add: ext0_io)
  have h4: "Certificate (TlsCertificate [''PEM''] ''KEY'') \<noteq> []"
    by simp
  have h5: "x509_ParseCertificate ext0 (Certificate (TlsCertificate [''PEM''] ''KEY'') ! 0)
            = Inr (X509Certificate (1000 * time_Second))"
    by (simp add: ext0_io)
  have h6: "NotAfter (X509Certificate (1000 * time_Second)) - time_Now ext0 < 5000000000"
    by (simp add: ext0_io time_Second_def)
  have h7: "makeClient ext0 cf0 False = Inr tc0 \<and> cf_AppName cf0 = ''grafana''"
    by (simp add: ext0_client cf0_fields)
  show ?thesis
    using h1 h6 h7 loadAppCertificate_near_expiry [OF h1 h2 h3 h4 h5 h6, of cf0]
    by simp
qed

text \<open>
  C5. When the key of the cluster has been read from the local credential store and holds
  no TLS certificate for the requested application name, loadAppCertificate returns no
  certificate: it fails with the not-found classification, and its message names the
  action \<open>tsh app login\<close>.
\<close>

theorem loadAppCertificate_not_logged_in:
  assumes "GetKey X tc (tc_SiteName tc) = Inr key"
    and "AppTLSCerts key appName = None"
  shows "loadAppCertificate X tc appName = Inl (NotFound msg_login_first)
         \<and> sublist ''tsh app login'' msg_login_first
         \<and> sublist ''please login'' msg_login_first"
proof -
  have load: "loadAppCertificate X tc appName = Inl (NotFound msg_login_first)"
    using assms by (simp add: loadAppCertificate_def)
  have action: "sublist ''tsh app login'' msg_login_first"
    unfolding msg_login_first_def by (rule sublist_tsh_app_login)
  have "prefix ''please login'' msg_login_first"
    by (simp add: msg_login_first_def)
  then have "sublist ''please login'' msg_login_first"
    by (rule prefix_imp_sublist)
  with load action show ?thesis by blast
qed

theorem loadAppCertificate_not_logged_in_witness:
  "GetKey ext0 tc0 (tc_SiteName tc0) = Inr \<lparr>AppTLSCerts = [''grafana'' \<mapsto> ''PEM''], Priv = ''KEY''\<rparr>
   \<and> AppTLSCerts \<lparr>AppTLSCerts = [''grafana'' \<mapsto> ''PEM''], Priv = ''KEY''\<rparr> ''kibana'' = None
   \<and> loadAppCertificate ext0 tc0 ''kibana'' = Inl (NotFound msg_login_first)"
proof -
  let ?key = "\<lparr>AppTLSCerts = [''grafana'' \<mapsto> ''PEM''], Priv = ''KEY''\<rparr>"
  have h1: "GetKey ext0 tc0 (tc_SiteName tc0) = Inr ?key"
    by (simp add: ext0_client)
  have h2: "AppTLSCerts ?key ''kibana'' = None"
    by simp
  show ?thesis
    using h1 h2 loadAppCertificate_not_logged_in [OF h1 h2] by simp
qed

subsection \<open>The application proxy command\<close>

text \<open>
  C10. When the application proxy command has bound its listener and the construction of
  the local proxy then fails, the command closes that listener before it returns: its
  effects are the listen, the construction attempt and the close, in this order. It
  returns the construction error, or, when the close fails as well, the aggregate of the
  construction error and the close error.
\<close>

theorem onProxyCommandApp_closes_listener_on_construction_error:
  assumes "makeClient X cf False = Inr tc"
    and "loadAppCertificate X tc (cf_AppName cf) = Inr appCerts"
    and "utils_ParseAddr_Host X (tc_WebProxyAddr tc) = Inr host"
    and "addr = (if cf_LocalProxyPort cf \<noteq> [] then ''127.0.0.1:'' @ cf_LocalProxyPort cf
                 else ''localhost:0'')"
    and "net_Listen X ''tcp'' addr = Inr l"
    and "cfg = LocalProxyConfig_zero
            \<lparr>Listener := Some l,
             RemoteProxyAddr := tc_WebProxyAddr tc,
             Protocol := Some ProtocolHTTP,
             InsecureSkipVerify := cf_InsecureSkipVerify cf,
             ParentContext := Some (cf_Context cf),
             SNI := host,
             Certs := [appCerts]\<rparr>"
    and "alpnproxy_NewLocalProxy X cfg = Inl e"
  shows "onProxyCommandApp X cf
         = (case listener_Close X l of
              None \<Rightarrow> Some e
            | Some cerr \<Rightarrow> Some (Aggregate [e, cerr]),
            [EvNetListen ''tcp'' addr, EvNewLocalProxy cfg, EvListenerClose l])"
proof -
  have listen: "net_Listen X ''tcp'' (if cf_LocalProxyPort cf \<noteq> []
                    then ''127.0.0.1:'' @ cf_LocalProxyPort cf else ''localhost:0'') = Inr l"
    using assms(4,5) by simp
  have new: "alpnproxy_NewLocalProxy X (LocalProxyConfig_zero
            \<lparr>Listener := Some l,
             RemoteProxyAddr := tc_WebProxyAddr tc,
             Protocol := Some ProtocolHTTP,
             InsecureSkipVerify := cf_InsecureSkipVerify cf,
             ParentContext := Some (cf_Context cf),
             SNI := host,
             Certs := [appCerts]\<rparr>) = Inl e"
    using assms(6,7) by simp
  show ?thesis
    unfolding onProxyCommandApp_def
    by (simp add: assms(1-3) listen new Let_def trace_Wrap_def trace_NewAggregate_def
          assms(4,6) split: option.splits)
qed

theorem onProxyCommandApp_closes_listener_on_construction_error_witness:
  "makeClient ext1 cf0 False = Inr tc0
   \<and> loadAppCertificate ext1 tc0 (cf_AppName cf0) = Inr (TlsCertificate [''PEM''] ''KEY'')
   \<and> net_Listen ext1 ''tcp'' ''localhost:0'' = Inr (NetListener ''localhost:0'')
   \<and> alpnproxy_NewLocalProxy ext1
        (LocalProxyConfig_zero
            \<lparr>Listener := Some (NetListener ''localhost:0''),
             RemoteProxyAddr := tc_WebProxyAddr tc0,
             Protocol := Some ProtocolHTTP,
             InsecureSkipVerify := cf_InsecureSkipVerify cf0,
             ParentContext := Some (cf_Context cf0),
             SNI := ''proxy.example.com'',
             Certs := [TlsCertificate [''PEM''] ''KEY'']\<rparr>)
       = Inl (BadParameter ''missing protocol'')
   \<and> onProxyCommandApp ext1 cf0
       = (Some (Aggregate [BadParameter ''missing protocol'',
                           ExternalError ''use of closed network connection'']),
          [EvNetListen ''tcp'' ''localhost:0'',
           EvNewLocalProxy (LocalProxyConfig_zero
            \<lparr>Listener := Some (NetListener ''localhost:0''),
             RemoteProxyAddr := tc_WebProxyAddr tc0,
             Protocol := Some ProtocolHTTP,
             InsecureSkipVerify := cf_InsecureSkipVerify cf0,
             ParentContext := Some (cf_Context cf0),
             SNI := ''proxy.example.com'',
             Certs := [TlsCertificate [''PEM''] ''KEY'']\<rparr>),
           EvListenerClose (NetListener ''localhost:0'')])"
proof -
  let ?cert = "TlsCertificate [''PEM''] ''KEY''"
  let ?l = "NetListener ''localhost:0''"
  let ?cfg = "LocalProxyConfig_zero
            \<lparr>Listener := Some ?l,
             RemoteProxyAddr := tc_WebProxyAddr tc0,
             Protocol := Some ProtocolHTTP,
             InsecureSkipVerify := cf_InsecureSkipVerify cf0,
             ParentContext := Some (cf_Context cf0),
             SNI := ''proxy.example.com'',
             Certs := [?cert]\<rparr>"
  have h1: "makeClient ext1 cf0 False = Inr tc0"
    by (simp add: ext1_def ext0_def)
  have far: "\<not> time_Until ext1 (1000 * time_Second) < 5 * time_Second"
    by (simp add: time_Until_near_expiry) (simp add: ext1_def time_Second_def)
  have store: "GetKey ext1 tc0 site = Inr \<lparr>AppTLSCerts = [''grafana'' \<mapsto> ''PEM''], Priv = ''KEY''\<rparr>"
    "tls_X509KeyPair ext1 pem k = Inr (TlsCertificate [pem] k)"
    "x509_ParseCertificate ext1 der = Inr (X509Certificate (1000 * time_Second))"
    for site pem k der
    by (simp_all add: ext1_def ext0_def)
  have h2: "loadAppCertificate ext1 tc0 (cf_AppName cf0) = Inr ?cert"
    by (simp add: loadAppCertificate_def store far cf0_fields)
  have h3: "utils_ParseAddr_Host ext1 (tc_WebProxyAddr tc0) = Inr ''proxy.example.com''"
    by (simp add: ext1_def ext0_def tc0_fields)
  have h4: "''localhost:0'' = (if cf_LocalProxyPort cf0 \<noteq> []
               then ''127.0.0.1:'' @ cf_LocalProxyPort cf0 else ''localhost:0'')"
    by (simp add: cf0_fields)
  have h5: "net_Listen ext1 ''tcp'' ''localhost:0'' = Inr ?l"
    by (simp add: ext1_def ext0_def)
  have h7: "alpnproxy_NewLocalProxy ext1 ?cfg = Inl (BadParameter ''missing protocol'')"
    by (simp add: ext1_def)
  have cl: "listener_Close ext1 ?l = Some (ExternalError ''use of closed network connection'')"
    by (simp add: ext1_def)
  show ?thesis
    using h1 h2 h5 h7
      onProxyCommandApp_closes_listener_on_construction_error [OF h1 h2 h3 h4 h5 refl h7]
    by (simp add: cl)
qed

subsection \<open>The subprocess strategy\<close>

text \<open>
  C6. When the client has no TLS routing, onProxyCommandSSH runs the external ssh client
  once: the arguments hold \<open>UserKnownHostsFile=\<close> with the known-hosts path under the
  profile's keys directory, and end in the subsystem target
  \<open>proxy:<host>:<port>@<cluster>\<close> made of the cleaned target host, the target port and
  the site name; \<open>-l <login>\<close> stands in front exactly when the host login is not empty;
  the child has the parent's standard input, output and error; and what the child's run
  returns is what the command returns.
\<close>

theorem onProxyCommandSSH_subprocess:
  assumes "makeClient X cf False = Inr tc"
    and "net_SplitHostPort X (tc_Host tc) = Inr (host, port)"
    and "\<not> tc_TLSRoutingEnabled tc"
    and "getSSHPath X = Inr sshPath"
  shows "onProxyCommandSSH X cf
         = (child_Run X
              \<lparr>cmd_Path = sshPath,
               cmd_Args = sshPath #
                 (if tc_HostLogin tc \<noteq> [] then [''-l'', tc_HostLogin tc] else [])
                 @ [''-A'',
                    ''-o'', ''UserKnownHostsFile=''
                       @ keypaths_KnownHostsPath X (profile_FullProfilePath X (tc_KeysDir tc)),
                    ''-p'', strconv_Itoa (snd (SSHProxyHostPort X tc)),
                    fst (SSHProxyHostPort X tc),
                    ''-s'',
                    ''proxy:'' @ cleanTargetHost host (WebProxyHost X tc) (tc_SiteName tc)
                       @ '':'' @ port @ ''@'' @ tc_SiteName tc],
               Stdin = Some os_Stdin, Stdout = Some os_Stdout, Stderr = Some os_Stderr\<rparr>,
            [EvExec
              \<lparr>cmd_Path = sshPath,
               cmd_Args = sshPath #
                 (if tc_HostLogin tc \<noteq> [] then [''-l'', tc_HostLogin tc] else [])
                 @ [''-A'',
                    ''-o'', ''UserKnownHostsFile=''
                       @ keypaths_KnownHostsPath X (profile_FullProfilePath X (tc_KeysDir tc)),
                    ''-p'', strconv_Itoa (snd (SSHProxyHostPort X tc)),
                    fst (SSHProxyHostPort X tc),
                    ''-s'',
                    ''proxy:'' @ cleanTargetHost host (WebProxyHost X tc) (tc_SiteName tc)
                       @ '':'' @ port @ ''@'' @ tc_SiteName tc],
               Stdin = Some os_Stdin, Stdout = Some os_Stdout, Stderr = Some os_Stderr\<rparr>])"
proof -
  have wrap: "map_option trace_Wrap r = r" for r
    by (cases r) (simp_all add: trace_Wrap_def)
  show ?thesis
    unfolding onProxyCommandSSH_def sshProxy_def
    by (simp add: assms wrap Let_def exec_Command_def split_beta)
qed

theorem onProxyCommandSSH_subprocess_witness:
  "makeClient ext0 cf0 False = Inr tc0
   \<and> net_SplitHostPort ext0 (tc_Host tc0) = Inr (''node1.proxy.example.com'', ''22'')
   \<and> \<not> tc_TLSRoutingEnabled tc0
   \<and> getSSHPath ext0 = Inr ''/usr/bin/ssh''
   \<and> onProxyCommandSSH ext0 cf0
       = (Some (ExternalError ''exit status 255''),
          [EvExec
            \<lparr>cmd_Path = ''/usr/bin/ssh'',
             cmd_Args = [''/usr/bin/ssh'', ''-l'', ''alice'', ''-A'',
                         ''-o'', ''UserKnownHostsFile=/home/alice/.tsh/known_hosts'',
                         ''-p'', ''3023'', ''proxy.example.com'', ''-s'',
                         ''proxy:node1:22@example.com''],
             Stdin = Some os_Stdin, Stdout = Some os_Stdout, Stderr = Some os_Stderr\<rparr>])"
proof -
  have h1: "makeClient ext0 cf0 False = Inr tc0"
    by (simp add: ext0_client)
  have h2: "net_SplitHostPort ext0 (tc_Host tc0) = Inr (''node1.proxy.example.com'', ''22'')"
    by (simp add: ext0_client tc0_fields)
  have h3: "\<not> tc_TLSRoutingEnabled tc0"
    by (simp add: tc0_fields)
  have h4: "getSSHPath ext0 = Inr ''/usr/bin/ssh''"
    by (simp add: ext0_io)
  have port: "strconv_Itoa 3023 = ''3023''"
    by code_simp
  have clean: "cleanTargetHost ''node1.proxy.example.com'' ''proxy.example.com'' ''example.com''
               = ''node1''"
    by (simp add: cleanTargetHost_def strings_TrimSuffix_def strings_HasSuffix_def)
  show ?thesis
    using h1 h2 h3 h4 onProxyCommandSSH_subprocess [OF h1 h2 h3 h4]
    by (simp add: ext0_client ext0_io tc0_fields port clean)
qed

end
